theory Spec2Isabelle
  imports Main
begin

section \<open>The admin dashboard page (src/pages/Admin.tsx)\<close>

text \<open>
  The page is one React component. Its component state (the \<open>useState\<close> cells) is a
  record; every handler is a function from the outcome of the backend calls it awaits and
  the current state to the new state and the list of calls it made, in order, on the
  router, the toast facility and the console. A handler that reads a state cell reads the
  value its render captured, so it also takes that render's state.
\<close>

subsection \<open>Data model\<close>

text \<open>
  Record fields are global names in HOL, so the fields of \<open>User\<close> carry the prefix
  \<open>u_\<close>, those of \<open>Infraction\<close> the prefix \<open>i_\<close> and those of the joined profile
  (\<open>reported_user\<close>, \<open>reporter\<close>) the prefix \<open>p_\<close>.

  The interface declares \<open>full_name\<close> and \<open>email\<close> as strings, but the rows come
  unchecked from the backend and the page guards every read of them (\<open>full_name?.\<close>,
  \<open>email?.\<close>, \<open>full_name || 'Sin nombre'\<close>): both are optional here, \<open>None\<close>
  standing for \<open>null\<close>/\<open>undefined\<close>, so that the guarded branch is a branch of the model.
\<close>

datatype user_type = Client | Artist | Admin

datatype user_status = Active | Inactive

datatype infraction_status = Pending | Resolved

record user =
  u_id :: string
  u_email :: "string option"
  u_full_name :: "string option"
  u_user_type :: user_type
  u_status :: user_status
  u_created_at :: string

record joined_profile =
  p_full_name :: "string option"
  p_email :: "string option"

record infraction =
  i_id :: string
  i_user_id :: string
  i_reported_user_id :: string
  i_description :: string
  i_detailed_description :: "string option"
  i_status :: infraction_status
  i_created_at :: string
  i_reported_user :: "joined_profile option"
  i_reporter :: "joined_profile option"

text \<open>The six \<open>useState\<close> cells of the component.\<close>

record page =
  users :: "user list"
  infractions :: "infraction list"
  loading :: bool
  searchTerm :: string
  selectedInfraction :: "infraction option"
  isInfractionModalOpen :: bool

definition initial_page :: page where
  "initial_page =
     \<lparr>users = [], infractions = [], loading = True, searchTerm = [],
      selectedInfraction = None, isInfractionModalOpen = False\<rparr>"

subsection \<open>The string built-ins the page calls\<close>

text \<open>
  Strings are lists of 8-bit characters (Latin-1). \<open>toLowerCase\<close> maps \<open>A\<close>..\<open>Z\<close> and the
  accented capitals \<open>0xC0\<close>..\<open>0xDE\<close> (all but the multiplication sign \<open>0xD7\<close>) to the
  letter 32 places up, as the built-in does on that range.
\<close>

definition toLowerChar :: "char \<Rightarrow> char" where
  "toLowerChar c =
     (let n = (of_char c :: nat)
      in if (65 \<le> n \<and> n \<le> 90) \<or> (192 \<le> n \<and> n \<le> 222 \<and> n \<noteq> 215)
         then char_of (n + 32) else c)"

definition toLowerCase :: "string \<Rightarrow> string" where
  "toLowerCase s = map toLowerChar s"

text \<open>
  \<open>s.includes(t)\<close> (here \<open>includes_str\<close>, the bare name being reserved): \<open>t\<close> starts at
  some position of \<open>s\<close>.
\<close>

definition startsWith :: "string \<Rightarrow> string \<Rightarrow> bool" where
  "startsWith s t = (take (length t) s = t)"

fun includes_str :: "string \<Rightarrow> string \<Rightarrow> bool" where
  "includes_str [] t = (t = [])"
| "includes_str (c # s) t = (startsWith (c # s) t \<or> includes_str s t)"

subsection \<open>Search filter (lines 120-123)\<close>

text \<open>
  \<open>user.full_name?.toLowerCase().includes(searchTerm.toLowerCase())\<close>: the optional chain
  yields \<open>undefined\<close>, which \<open>||\<close> and \<open>filter\<close> read as false, when the field is absent.
\<close>

definition lowerIncludes :: "string option \<Rightarrow> string \<Rightarrow> bool" where
  "lowerIncludes field query =
     (case field of
        None \<Rightarrow> False
      | Some v \<Rightarrow> includes_str (toLowerCase v) (toLowerCase query))"

definition filteredUsers :: "user list \<Rightarrow> string \<Rightarrow> user list" where
  "filteredUsers us query =
     filter (\<lambda>user. lowerIncludes (u_full_name user) query \<or> lowerIncludes (u_email user) query) us"

subsection \<open>Statistics (lines 175-180)\<close>

record dashboard_stats =
  totalUsers :: nat
  activeUsers :: nat
  pendingInfractions :: nat
  resolvedInfractions :: nat

definition stats :: "page \<Rightarrow> dashboard_stats" where
  "stats s =
     \<lparr>totalUsers = length (users s),
      activeUsers = length (filter (\<lambda>u. u_status u = Active) (users s)),
      pendingInfractions = length (filter (\<lambda>i. i_status i = Pending) (infractions s)),
      resolvedInfractions = length (filter (\<lambda>i. i_status i = Resolved) (infractions s))\<rparr>"

subsection \<open>Backend outcomes and the calls a handler makes\<close>

text \<open>
  An awaited backend call either fulfils with its reply or rejects (then \<open>await\<close> throws).
  A reply is the pair \<open>{ data, error }\<close>; an error object is always truthy. The calls on
  the collaborators are recorded in the order the handler makes them.
\<close>

datatype backend_error = BackendError string

datatype 'a awaited = Fulfilled 'a | Rejected backend_error

record 'a reply =
  data :: "'a option"
  error :: "backend_error option"

datatype effect =
    Navigate string
  | ToastError string
  | ToastSuccess string
  | ConsoleError string backend_error

text \<open>The message literals; \<open>0xF3\<close> is the o with acute accent, \<open>0xE1\<close> the a with acute accent.\<close>

definition msg_access_denied :: string where
  "msg_access_denied =
     ''Acceso denegado. Solo los administradores pueden acceder a esta p'' @ [CHR 0xE1] @ ''gina.''"

definition msg_load_failed :: string where
  "msg_load_failed = ''Error al cargar los datos''"

definition msg_block_ok :: string where
  "msg_block_ok = ''Usuario bloqueado exitosamente''"

definition msg_block_failed :: string where
  "msg_block_failed = ''Error al bloquear el usuario''"

definition msg_resolve_ok :: string where
  "msg_resolve_ok = ''Infracci'' @ [CHR 0xF3] @ ''n resuelta exitosamente''"

definition msg_resolve_failed :: string where
  "msg_resolve_failed = ''Error al resolver la infracci'' @ [CHR 0xF3] @ ''n''"

subsection \<open>Access guard (lines 52-71)\<close>

text \<open>
  \<open>getUser\<close> fulfils with the session user or \<open>null\<close>; the profile query is keyed by the
  user's id and its \<open>error\<close> field is not read. Neither await is inside a \<open>try\<close>: a
  rejection leaves the handler as an unhandled rejection (the second component).
\<close>

record session_user =
  su_id :: string

record profile_role =
  pr_user_type :: string

definition checkAdminAccess ::
    "session_user option awaited \<Rightarrow> (string \<Rightarrow> profile_role reply awaited)
       \<Rightarrow> effect list \<times> backend_error option" where
  "checkAdminAccess getUser selectProfile =
     (case getUser of
        Rejected e \<Rightarrow> ([], Some e)
      | Fulfilled None \<Rightarrow> ([Navigate ''/auth''], None)
      | Fulfilled (Some user) \<Rightarrow>
          (case selectProfile (su_id user) of
             Rejected e \<Rightarrow> ([], Some e)
           | Fulfilled r \<Rightarrow>
               (case data r of
                  None \<Rightarrow> ([ToastError msg_access_denied, Navigate ''/''], None)
                | Some profile \<Rightarrow>
                    if pr_user_type profile \<noteq> ''admin''
                    then ([ToastError msg_access_denied, Navigate ''/''], None)
                    else ([], None))))"

subsection \<open>Data loader (lines 78-114)\<close>

text \<open>
  The \<open>try\<close> block, run to its end or to the first throw: the state it leaves and the
  thrown error, if any. The infractions query is issued only after \<open>setUsers\<close>.
\<close>

definition loadData_try ::
    "user list reply awaited \<Rightarrow> infraction list reply awaited \<Rightarrow> page
       \<Rightarrow> page \<times> backend_error option" where
  "loadData_try usersQuery infractionsQuery s =
     (case usersQuery of
        Rejected e \<Rightarrow> (s, Some e)
      | Fulfilled ur \<Rightarrow>
          (case error ur of
             Some usersError \<Rightarrow> (s, Some usersError)
           | None \<Rightarrow>
               let s1 = s\<lparr>users := (case data ur of None \<Rightarrow> [] | Some usersData \<Rightarrow> usersData)\<rparr>
               in (case infractionsQuery of
                     Rejected e \<Rightarrow> (s1, Some e)
                   | Fulfilled ir \<Rightarrow>
                       (case error ir of
                          Some infractionsError \<Rightarrow> (s1, Some infractionsError)
                        | None \<Rightarrow>
                            (s1\<lparr>infractions :=
                                  (case data ir of None \<Rightarrow> [] | Some infractionsData \<Rightarrow> infractionsData)\<rparr>,
                             None)))))"

text \<open>\<open>catch\<close> logs and notifies; \<open>finally\<close> clears the loading flag.\<close>

definition loadData ::
    "user list reply awaited \<Rightarrow> infraction list reply awaited \<Rightarrow> page
       \<Rightarrow> page \<times> effect list" where
  "loadData usersQuery infractionsQuery s =
     (let (s1, thrown) = loadData_try usersQuery infractionsQuery s;
          caught = (case thrown of
                      None \<Rightarrow> []
                    | Some e \<Rightarrow> [ConsoleError ''Error loading data:'' e, ToastError msg_load_failed])
      in (s1\<lparr>loading := False\<rparr>, caught))"

subsection \<open>Block and resolve actions (lines 126-166)\<close>

text \<open>The error a write throws into its \<open>catch\<close>: a rejection, or the reply's \<open>error\<close>.\<close>

definition thrown_by :: "'a reply awaited \<Rightarrow> backend_error option" where
  "thrown_by r = (case r of Rejected e \<Rightarrow> Some e | Fulfilled rep \<Rightarrow> error rep)"

text \<open>
  Both write handlers are closures of one render. The list they map (\<open>users\<close> at line 135,
  \<open>infractions\<close> at line 156) is the constant that render captured, read after the await;
  the setter then replaces the list of the state current at that moment. So each handler
  takes the state \<open>render\<close> of the render it belongs to and the state \<open>s\<close> current when the
  awaited update settles. The two differ when another write landed in between.
\<close>

definition handleBlockUser ::
    "page \<Rightarrow> unit reply awaited \<Rightarrow> string \<Rightarrow> page \<Rightarrow> page \<times> effect list" where
  "handleBlockUser render update userId s =
     (case thrown_by update of
        Some e \<Rightarrow> (s, [ConsoleError ''Error blocking user:'' e, ToastError msg_block_failed])
      | None \<Rightarrow>
          (s\<lparr>users := map (\<lambda>user. if u_id user = userId then user\<lparr>u_status := Inactive\<rparr> else user)
                          (users render)\<rparr>,
           [ToastSuccess msg_block_ok]))"

definition handleResolveInfraction ::
    "page \<Rightarrow> unit reply awaited \<Rightarrow> string \<Rightarrow> page \<Rightarrow> page \<times> effect list" where
  "handleResolveInfraction render update infractionId s =
     (case thrown_by update of
        Some e \<Rightarrow> (s, [ConsoleError ''Error resolving infraction:'' e, ToastError msg_resolve_failed])
      | None \<Rightarrow>
          (s\<lparr>infractions :=
                 map (\<lambda>infraction. if i_id infraction = infractionId
                                    then infraction\<lparr>i_status := Resolved\<rparr> else infraction)
                     (infractions render),
              isInfractionModalOpen := False\<rparr>,
           [ToastSuccess msg_resolve_ok]))"

definition handleViewInfractionDetails :: "infraction \<Rightarrow> page \<Rightarrow> page" where
  "handleViewInfractionDetails infraction s =
     s\<lparr>selectedInfraction := Some infraction, isInfractionModalOpen := True\<rparr>"

subsection \<open>The user table (lines 272-318)\<close>

text \<open>
  One row per filtered user; of the row's cells only the last matters here: whether the
  \<open>Bloquear\<close> dialog trigger is rendered (line 288).
\<close>

record user_row =
  row_user :: user
  row_block_action :: bool

definition renderUserRow :: "user \<Rightarrow> user_row" where
  "renderUserRow user =
     \<lparr>row_user = user,
      row_block_action = (u_status user = Active \<and> u_user_type user \<noteq> Admin)\<rparr>"

definition userTable :: "page \<Rightarrow> user_row list" where
  "userTable s = map renderUserRow (filteredUsers (users s) (searchTerm s))"

subsection \<open>The specification's notion of substring match\<close>

text \<open>
  The specification writes \<open>q.lower() \<subseteq> u.display_name.lower()\<close>: the lowered query occurs
  inside the lowered field, with some text before it and some after it. A field that is
  absent contains nothing.
\<close>

definition contains_substring :: "string \<Rightarrow> string \<Rightarrow> bool" where
  "contains_substring s t = (\<exists>pre suf. s = pre @ t @ suf)"

definition spec_matches :: "string \<Rightarrow> user \<Rightarrow> bool" where
  "spec_matches q u =
     ((\<exists>n. u_full_name u = Some n \<and> contains_substring (toLowerCase n) (toLowerCase q)) \<or>
      (\<exists>e. u_email u = Some e \<and> contains_substring (toLowerCase e) (toLowerCase q)))"

subsection \<open>Sample rows\<close>

definition ana :: user where
  "ana = \<lparr>u_id = ''1'', u_email = Some ''ana@example.com'', u_full_name = Some ''Ana Torres'',
          u_user_type = Client, u_status = Active, u_created_at = ''2024-03-01''\<rparr>"

definition root_admin :: user where
  "root_admin = \<lparr>u_id = ''2'', u_email = Some ''root@example.com'', u_full_name = None,
                 u_user_type = Admin, u_status = Active, u_created_at = ''2024-02-01''\<rparr>"

definition ghost :: user where
  "ghost = \<lparr>u_id = ''3'', u_email = None, u_full_name = None,
            u_user_type = Artist, u_status = Inactive, u_created_at = ''2024-01-01''\<rparr>"

definition report_a :: infraction where
  "report_a = \<lparr>i_id = ''a'', i_user_id = ''1'', i_reported_user_id = ''3'',
               i_description = ''spam'', i_detailed_description = None, i_status = Pending,
               i_created_at = ''2024-03-02'', i_reported_user = None,
               i_reporter = Some \<lparr>p_full_name = Some ''Ana Torres'',
                                   p_email = Some ''ana@example.com''\<rparr>\<rparr>"

definition report_b :: infraction where
  "report_b = \<lparr>i_id = ''b'', i_user_id = ''3'', i_reported_user_id = ''1'',
               i_description = ''abuse'', i_detailed_description = Some ''details'',
               i_status = Resolved, i_created_at = ''2024-03-01'', i_reported_user = None,
               i_reporter = None\<rparr>"

definition loaded_page :: page where
  "loaded_page =
     \<lparr>users = [ana, root_admin, ghost], infractions = [report_a, report_b], loading = False,
      searchTerm = [], selectedInfraction = None, isInfractionModalOpen = False\<rparr>"


definition update_refused :: "unit reply awaited" where
  "update_refused = Fulfilled \<lparr>data = None, error = Some (BackendError ''permission denied'')\<rparr>"






definition users_only_ok :: "user list reply awaited" where
  "users_only_ok = Fulfilled \<lparr>data = Some [ana], error = None\<rparr>"

definition users_refused :: "user list reply awaited" where
  "users_refused = Fulfilled \<lparr>data = None, error = Some (BackendError ''permission denied'')\<rparr>"

definition infractions_ok :: "infraction list reply awaited" where
  "infractions_ok = Fulfilled \<lparr>data = Some [report_a], error = None\<rparr>"

definition infractions_refused :: "infraction list reply awaited" where
  "infractions_refused = Fulfilled \<lparr>data = None, error = Some (BackendError ''timeout'')\<rparr>"

definition no_session :: "session_user option awaited" where
  "no_session = Fulfilled None"

definition session_of :: "string \<Rightarrow> session_user option awaited" where
  "session_of uid = Fulfilled (Some \<lparr>su_id = uid\<rparr>)"

text \<open>A profile store holding a client (id 1) and an admin (id 2), and nothing else.\<close>

definition profile_store :: "string \<Rightarrow> profile_role reply awaited" where
  "profile_store uid =
     (if uid = ''1'' then Fulfilled \<lparr>data = Some \<lparr>pr_user_type = ''client''\<rparr>, error = None\<rparr>
      else if uid = ''2'' then Fulfilled \<lparr>data = Some \<lparr>pr_user_type = ''admin''\<rparr>, error = None\<rparr>
      else Fulfilled \<lparr>data = None, error = Some (BackendError ''no rows'')\<rparr>)"

section \<open>Properties\<close>

subsection \<open>Substring search\<close>

lemma startsWith_iff: "startsWith s t \<longleftrightarrow> (\<exists>suf. s = t @ suf)"
proof
  assume "startsWith s t"
  then have "s = t @ drop (length t) s"
    unfolding startsWith_def by (metis append_take_drop_id)
  then show "\<exists>suf. s = t @ suf" ..
next
  assume "\<exists>suf. s = t @ suf"
  then show "startsWith s t" by (auto simp: startsWith_def)
qed

lemma contains_substring_Cons:
  "contains_substring (c # s) t \<longleftrightarrow> (\<exists>suf. c # s = t @ suf) \<or> contains_substring s t"
proof
  assume "contains_substring (c # s) t"
  then obtain pre suf where e: "c # s = pre @ t @ suf"
    unfolding contains_substring_def by blast
  show "(\<exists>suf. c # s = t @ suf) \<or> contains_substring s t"
  proof (cases pre)
    case Nil
    with e show ?thesis by auto
  next
    case (Cons p pre')
    with e have "s = pre' @ t @ suf" by simp
    then show ?thesis unfolding contains_substring_def by blast
  qed
next
  assume "(\<exists>suf. c # s = t @ suf) \<or> contains_substring s t"
  then show "contains_substring (c # s) t"
  proof
    assume "\<exists>suf. c # s = t @ suf"
    then obtain suf where "c # s = [] @ t @ suf" by auto
    then show ?thesis unfolding contains_substring_def by blast
  next
    assume "contains_substring s t"
    then obtain pre suf where "s = pre @ t @ suf"
      unfolding contains_substring_def by blast
    then have "c # s = (c # pre) @ t @ suf" by simp
    then show ?thesis unfolding contains_substring_def by blast
  qed
qed

lemma includes_str_iff: "includes_str s t \<longleftrightarrow> contains_substring s t"
proof (induction s)
  case Nil
  show ?case by (auto simp: contains_substring_def)
next
  case (Cons c s)
  then show ?case by (simp add: startsWith_iff contains_substring_Cons)
qed

lemma includes_str_empty: "includes_str s []"
  by (cases s) (simp_all add: startsWith_def)

lemma lowerIncludes_iff:
  "lowerIncludes f q \<longleftrightarrow> (\<exists>v. f = Some v \<and> contains_substring (toLowerCase v) (toLowerCase q))"
  by (cases f) (simp_all add: lowerIncludes_def includes_str_iff)

lemma lowerIncludes_empty: "lowerIncludes f [] \<longleftrightarrow> f \<noteq> None"
  by (cases f) (simp_all add: lowerIncludes_def toLowerCase_def includes_str_empty)

text \<open>
  C1 (as amended). For every loaded profile list and every query \<open>q\<close>, the filtered list is
  the loaded list restricted, in order, to the profiles whose display name or email is
  present and contains \<open>q\<close> as a case-insensitive substring; the empty query returns the
  loaded profiles that have a display name or an email, hence the full list when every
  loaded profile has at least one of the two.
\<close>

theorem filteredUsers_matches:
  "filteredUsers us q = filter (spec_matches q) us \<and>
   filteredUsers us [] = filter (\<lambda>u. u_full_name u \<noteq> None \<or> u_email u \<noteq> None) us \<and>
   ((\<forall>u \<in> set us. u_full_name u \<noteq> None \<or> u_email u \<noteq> None) \<longrightarrow> filteredUsers us [] = us)"
proof -
  have m: "(lowerIncludes (u_full_name u) q \<or> lowerIncludes (u_email u) q) = spec_matches q u"
    for u
    by (simp only: spec_matches_def lowerIncludes_iff)
  have all: "filteredUsers us q = filter (spec_matches q) us"
    by (simp only: filteredUsers_def m)
  have empty: "filteredUsers us []
                 = filter (\<lambda>u. u_full_name u \<noteq> None \<or> u_email u \<noteq> None) us"
    by (simp only: filteredUsers_def lowerIncludes_empty)
  have full: "filteredUsers us [] = us"
    if "\<forall>u \<in> set us. u_full_name u \<noteq> None \<or> u_email u \<noteq> None"
    unfolding empty using that by (simp only: filter_True)
  from all empty full show ?thesis by blast
qed

theorem filteredUsers_matches_witness:
  "filter (spec_matches ''ANA'') [ana, root_admin, ghost] = [ana] \<and>
   filter (\<lambda>u. u_full_name u \<noteq> None \<or> u_email u \<noteq> None) [ana, root_admin, ghost]
     = [ana, root_admin] \<and>
   u_full_name root_admin = None \<and>
   filteredUsers [ana, root_admin] [] = [ana, root_admin]"
proof -
  have a: "filteredUsers [ana, root_admin, ghost] ''ANA'' = [ana]"
    by code_simp
  have b: "filteredUsers [ana, root_admin, ghost] [] = [ana, root_admin]"
    by code_simp
  have c: "\<forall>u \<in> set [ana, root_admin]. u_full_name u \<noteq> None \<or> u_email u \<noteq> None"
    by (simp add: ana_def root_admin_def)
  have d: "u_full_name root_admin = None"
    by (simp add: root_admin_def)
  from filteredUsers_matches [of "[ana, root_admin, ghost]" "''ANA''"] a b
  have e: "filter (spec_matches ''ANA'') [ana, root_admin, ghost] = [ana] \<and>
           filter (\<lambda>u. u_full_name u \<noteq> None \<or> u_email u \<noteq> None) [ana, root_admin, ghost]
             = [ana, root_admin]"
    by (simp only:)
  from filteredUsers_matches [of "[ana, root_admin]" "[]"] c
  have f: "filteredUsers [ana, root_admin] [] = [ana, root_admin]"
    by blast
  from d e f show ?thesis by blast
qed

text \<open>
  C1 as stated fails on the empty query: a profile with neither a display name nor an email
  is dropped, so the full list is not returned.
\<close>

theorem filteredUsers_empty_query_counterexample:
  "filteredUsers [ghost] [] \<noteq> [ghost]"
  by code_simp

subsection \<open>Block and resolve, remote success\<close>







subsection \<open>Statistics\<close>

lemma not_Pending_iff: "(st \<noteq> Pending) = (st = Resolved)"
  by (cases st) simp_all

text \<open>
  C4. For every user list and infraction list held by the page, the derived counts satisfy
  \<open>activeUsers \<le> totalUsers\<close>, and the pending and resolved counts add up to the number of
  loaded infractions.
\<close>

theorem stats_invariants:
  "activeUsers (stats s) \<le> totalUsers (stats s) \<and>
   pendingInfractions (stats s) + resolvedInfractions (stats s) = length (infractions s)"
proof -
  have "length (filter (\<lambda>i. i_status i = Pending) xs)
          + length (filter (\<lambda>i. i_status i = Resolved) xs) = length xs"
    for xs :: "infraction list"
    using sum_length_filter_compl [of "\<lambda>i. i_status i = Pending" xs]
    by (simp only: not_Pending_iff)
  then show ?thesis
    by (simp add: stats_def)
qed

theorem stats_invariants_witness:
  "stats loaded_page =
     \<lparr>totalUsers = 3, activeUsers = 2, pendingInfractions = 1, resolvedInfractions = 1\<rparr> \<and>
   activeUsers (stats loaded_page) \<le> totalUsers (stats loaded_page) \<and>
   pendingInfractions (stats loaded_page) + resolvedInfractions (stats loaded_page) = 2"
proof -
  have v: "stats loaded_page =
     \<lparr>totalUsers = 3, activeUsers = 2, pendingInfractions = 1, resolvedInfractions = 1\<rparr>"
    by (simp add: stats_def loaded_page_def ana_def root_admin_def ghost_def
                  report_a_def report_b_def)
  have n: "length (infractions loaded_page) = 2"
    by (simp add: loaded_page_def)
  from stats_invariants [of loaded_page] v n show ?thesis
    by (simp only:)
qed

subsection \<open>Data loader\<close>

lemma loadData_try_users_failed:
  "thrown_by uq = Some e \<Longrightarrow> loadData_try uq iq s = (s, Some e)"
  by (auto simp: thrown_by_def loadData_try_def split: awaited.splits option.splits)

lemma loadData_try_infractions_failed:
  "uq = Fulfilled ur \<Longrightarrow> error ur = None \<Longrightarrow> thrown_by iq = Some e \<Longrightarrow>
   loadData_try uq iq s =
     (s\<lparr>users := (case data ur of None \<Rightarrow> [] | Some usersData \<Rightarrow> usersData)\<rparr>, Some e)"
  by (auto simp: thrown_by_def loadData_try_def split: awaited.splits option.splits)

text \<open>
  C5 (as amended). If the users query fails, both local lists are left in their prior
  state. If the users query succeeds and the infractions query fails, the infraction list
  is left in its prior state and the user list is the one just loaded (the reply's data,
  or the empty list when the data is absent).
\<close>

theorem loadData_failure_state:
  "(thrown_by uq \<noteq> None \<longrightarrow>
      users (fst (loadData uq iq s)) = users s \<and>
      infractions (fst (loadData uq iq s)) = infractions s) \<and>
   (uq = Fulfilled ur \<and> error ur = None \<and> thrown_by iq \<noteq> None \<longrightarrow>
      users (fst (loadData uq iq s))
        = (case data ur of None \<Rightarrow> [] | Some usersData \<Rightarrow> usersData) \<and>
      infractions (fst (loadData uq iq s)) = infractions s)"
proof (intro conjI impI)
  assume "thrown_by uq \<noteq> None"
  then obtain e where "thrown_by uq = Some e" by auto
  then have t: "loadData_try uq iq s = (s, Some e)"
    by (rule loadData_try_users_failed)
  show "users (fst (loadData uq iq s)) = users s"
    by (simp add: loadData_def t)
  show "infractions (fst (loadData uq iq s)) = infractions s"
    by (simp add: loadData_def t)
next
  assume a: "uq = Fulfilled ur \<and> error ur = None \<and> thrown_by iq \<noteq> None"
  then obtain e where "thrown_by iq = Some e" by auto
  with a have t: "loadData_try uq iq s =
     (s\<lparr>users := (case data ur of None \<Rightarrow> [] | Some usersData \<Rightarrow> usersData)\<rparr>, Some e)"
    by (simp add: loadData_try_infractions_failed)
  show "users (fst (loadData uq iq s))
          = (case data ur of None \<Rightarrow> [] | Some usersData \<Rightarrow> usersData)"
    by (simp add: loadData_def t)
  show "infractions (fst (loadData uq iq s)) = infractions s"
    by (simp add: loadData_def t)
qed

theorem loadData_failure_state_witness:
  "thrown_by users_refused \<noteq> None \<and>
   users (fst (loadData users_refused infractions_ok loaded_page)) = [ana, root_admin, ghost] \<and>
   infractions (fst (loadData users_refused infractions_ok loaded_page)) = [report_a, report_b] \<and>
   thrown_by infractions_refused \<noteq> None \<and>
   users (fst (loadData users_only_ok infractions_refused loaded_page)) = [ana] \<and>
   infractions (fst (loadData users_only_ok infractions_refused loaded_page))
     = [report_a, report_b]"
proof -
  have h1: "thrown_by users_refused \<noteq> None"
    by (simp add: thrown_by_def users_refused_def)
  have h2: "users_only_ok = Fulfilled \<lparr>data = Some [ana], error = None\<rparr> \<and>
            error \<lparr>data = Some [ana], error = None\<rparr> = None \<and>
            thrown_by infractions_refused \<noteq> None"
    by (simp add: thrown_by_def users_only_ok_def infractions_refused_def)
  from loadData_failure_state [of users_refused infractions_ok loaded_page] h1
  have a: "users (fst (loadData users_refused infractions_ok loaded_page)) = users loaded_page \<and>
           infractions (fst (loadData users_refused infractions_ok loaded_page))
             = infractions loaded_page"
    by blast
  from loadData_failure_state [of users_only_ok infractions_refused loaded_page
                                  "\<lparr>data = Some [ana], error = None\<rparr>"] h2
  have b: "users (fst (loadData users_only_ok infractions_refused loaded_page))
             = (case data \<lparr>data = Some [ana], error = None\<rparr> of
                  None \<Rightarrow> [] | Some usersData \<Rightarrow> usersData) \<and>
           infractions (fst (loadData users_only_ok infractions_refused loaded_page))
             = infractions loaded_page"
    by blast
  from a b h1 h2 show ?thesis
    by (simp add: loaded_page_def)
qed

text \<open>
  C5 as stated fails: from the initial page, the users query succeeds with one row and the
  infractions query then fails; the user list is no longer the prior (empty) one.
\<close>

theorem loadData_users_replaced_counterexample:
  "thrown_by infractions_refused \<noteq> None \<and>
   users initial_page = [] \<and>
   users (fst (loadData users_only_ok infractions_refused initial_page)) = [ana] \<and>
   users (fst (loadData users_only_ok infractions_refused initial_page)) \<noteq> users initial_page"
  by (simp add: thrown_by_def infractions_refused_def users_only_ok_def loadData_def
                loadData_try_def initial_page_def)

text \<open>
  C6. Whatever the two queries do, the loader ends with the loading flag cleared; and when
  either query fails, the error toast "Error al cargar los datos" is among the
  notifications shown.
\<close>

theorem loadData_clears_loading_and_notifies:
  "loading (fst (loadData uq iq s)) = False \<and>
   (thrown_by uq \<noteq> None \<or> thrown_by iq \<noteq> None \<longrightarrow>
      ToastError ''Error al cargar los datos'' \<in> set (snd (loadData uq iq s)))"
proof
  show "loading (fst (loadData uq iq s)) = False"
    by (simp add: loadData_def split: prod.splits)
next
  show "thrown_by uq \<noteq> None \<or> thrown_by iq \<noteq> None \<longrightarrow>
      ToastError ''Error al cargar los datos'' \<in> set (snd (loadData uq iq s))"
  proof
    assume f: "thrown_by uq \<noteq> None \<or> thrown_by iq \<noteq> None"
    have "\<exists>s1 e. loadData_try uq iq s = (s1, Some e)"
    proof (cases "thrown_by uq")
      case (Some e)
      then show ?thesis using loadData_try_users_failed by blast
    next
      case None
      then obtain ur where u: "uq = Fulfilled ur" "error ur = None"
        by (auto simp: thrown_by_def split: awaited.splits)
      from None f obtain e where "thrown_by iq = Some e" by auto
      with u show ?thesis using loadData_try_infractions_failed by blast
    qed
    then obtain s1 e where "loadData_try uq iq s = (s1, Some e)" by blast
    then show "ToastError ''Error al cargar los datos'' \<in> set (snd (loadData uq iq s))"
      by (simp add: loadData_def msg_load_failed_def)
  qed
qed

theorem loadData_clears_loading_and_notifies_witness:
  "thrown_by users_refused \<noteq> None \<and>
   loading initial_page \<and>
   \<not> loading (fst (loadData users_refused infractions_ok initial_page)) \<and>
   ToastError ''Error al cargar los datos''
     \<in> set (snd (loadData users_refused infractions_ok initial_page)) \<and>
   \<not> loading (fst (loadData users_only_ok infractions_ok initial_page))"
proof -
  have h: "thrown_by users_refused \<noteq> None"
    by (simp add: thrown_by_def users_refused_def)
  have l: "loading initial_page"
    by (simp add: initial_page_def)
  from loadData_clears_loading_and_notifies [of users_refused infractions_ok initial_page]
       loadData_clears_loading_and_notifies [of users_only_ok infractions_ok initial_page]
       h l
  show ?thesis by blast
qed

subsection \<open>Block and resolve, remote failure\<close>

text \<open>
  C7. If the remote update of a write action fails (the call rejects or replies with an
  error), the handler returns the page state current at that moment, whatever its render
  had captured: both lists are unchanged, the modal flag is unchanged (an open modal stays
  open after a failed resolve), and the handler logs the error and shows its error toast.
\<close>

theorem write_failure_leaves_state:
  assumes "thrown_by update = Some e"
  shows "handleBlockUser render update U s =
           (s, [ConsoleError ''Error blocking user:'' e,
                ToastError ''Error al bloquear el usuario'']) \<and>
         handleResolveInfraction render update I s =
           (s, [ConsoleError ''Error resolving infraction:'' e,
                ToastError (''Error al resolver la infracci'' @ [CHR 0xF3] @ ''n'')]) \<and>
         (isInfractionModalOpen s \<longrightarrow>
            isInfractionModalOpen (fst (handleResolveInfraction render update I s)))"
  using assms
  by (simp add: handleBlockUser_def handleResolveInfraction_def msg_block_failed_def
                msg_resolve_failed_def)

theorem write_failure_leaves_state_witness:
  "thrown_by update_refused = Some (BackendError ''permission denied'') \<and>
   users (fst (handleBlockUser loaded_page update_refused ''1'' loaded_page))
     = [ana, root_admin, ghost] \<and>
   snd (handleBlockUser loaded_page update_refused ''1'' loaded_page) =
     [ConsoleError ''Error blocking user:'' (BackendError ''permission denied''),
      ToastError msg_block_failed] \<and>
   infractions (fst (handleResolveInfraction loaded_page update_refused ''a''
       (handleViewInfractionDetails report_a loaded_page))) = [report_a, report_b] \<and>
   isInfractionModalOpen (fst (handleResolveInfraction loaded_page update_refused ''a''
       (handleViewInfractionDetails report_a loaded_page)))"
proof -
  have h: "thrown_by update_refused = Some (BackendError ''permission denied'')"
    by (simp add: thrown_by_def update_refused_def)
  have o: "isInfractionModalOpen (handleViewInfractionDetails report_a loaded_page)"
    by (simp add: handleViewInfractionDetails_def)
  from write_failure_leaves_state [OF h, where render = loaded_page and U = "''1''"
                                     and s = loaded_page]
  have a: "handleBlockUser loaded_page update_refused ''1'' loaded_page =
           (loaded_page,
            [ConsoleError ''Error blocking user:'' (BackendError ''permission denied''),
             ToastError ''Error al bloquear el usuario''])"
    by blast
  from write_failure_leaves_state
         [OF h, where render = loaded_page and I = "''a''"
            and s = "handleViewInfractionDetails report_a loaded_page"]
  have b: "handleResolveInfraction loaded_page update_refused ''a''
             (handleViewInfractionDetails report_a loaded_page) =
           (handleViewInfractionDetails report_a loaded_page,
            [ConsoleError ''Error resolving infraction:'' (BackendError ''permission denied''),
             ToastError (''Error al resolver la infracci'' @ [CHR 0xF3] @ ''n'')])"
    by blast
  show ?thesis
    unfolding a b using h o
    by (simp add: loaded_page_def handleViewInfractionDetails_def msg_block_failed_def)
qed

subsection \<open>The block action in the user table\<close>

text \<open>
  C8. For every row rendered in the user table, the block action is shown exactly when the
  row's user is active and not an admin; in particular it is never shown for an admin. Every
  row is the row of a loaded user.
\<close>

theorem block_action_shown_iff:
  assumes "row \<in> set (userTable s)"
  shows "(row_block_action row \<longleftrightarrow>
            u_status (row_user row) = Active \<and> u_user_type (row_user row) \<noteq> Admin) \<and>
         (u_user_type (row_user row) = Admin \<longrightarrow> \<not> row_block_action row) \<and>
         row_user row \<in> set (users s)"
proof -
  from assms obtain user where u: "user \<in> set (filteredUsers (users s) (searchTerm s))"
    and r: "row = renderUserRow user"
    by (auto simp: userTable_def)
  from u have "user \<in> set (users s)"
    by (simp add: filteredUsers_def)
  with r show ?thesis
    by (simp add: renderUserRow_def)
qed

theorem block_action_shown_iff_witness:
  "renderUserRow ana \<in> set (userTable loaded_page) \<and>
   row_block_action (renderUserRow ana) \<and>
   renderUserRow root_admin \<in> set (userTable loaded_page) \<and>
   u_user_type (row_user (renderUserRow root_admin)) = Admin \<and>
   \<not> row_block_action (renderUserRow root_admin)"
proof -
  have t: "userTable loaded_page = [renderUserRow ana, renderUserRow root_admin]"
    by code_simp
  have m1: "renderUserRow ana \<in> set (userTable loaded_page)"
    and m2: "renderUserRow root_admin \<in> set (userTable loaded_page)"
    unfolding t by simp_all
  have a: "u_status (row_user (renderUserRow ana)) = Active \<and>
           u_user_type (row_user (renderUserRow ana)) \<noteq> Admin"
    by (simp add: renderUserRow_def ana_def)
  have b: "u_user_type (row_user (renderUserRow root_admin)) = Admin"
    by (simp add: renderUserRow_def root_admin_def)
  from block_action_shown_iff [OF m1] block_action_shown_iff [OF m2] a b m1 m2
  show ?thesis by blast
qed

subsection \<open>Access guard\<close>

text \<open>
  C9. A guard run whose lookups fulfil does one of three things. With no session user it
  navigates to "/auth" and does nothing else. With a session user whose fetched profile is
  absent or has a role other than "admin", it shows the access-denied error toast and then
  navigates to "/". With a session user whose profile has the role "admin", it neither
  notifies nor navigates.
\<close>

theorem checkAdminAccess_cases:
  "(getUser = Fulfilled None \<longrightarrow>
      checkAdminAccess getUser selectProfile = ([Navigate ''/auth''], None)) \<and>
   (getUser = Fulfilled (Some user) \<and> selectProfile (su_id user) = Fulfilled r \<and>
    (data r = None \<or> (\<exists>profile. data r = Some profile \<and> pr_user_type profile \<noteq> ''admin''))
      \<longrightarrow> checkAdminAccess getUser selectProfile
            = ([ToastError msg_access_denied, Navigate ''/''], None)) \<and>
   (getUser = Fulfilled (Some user) \<and> selectProfile (su_id user) = Fulfilled r \<and>
    (\<exists>profile. data r = Some profile \<and> pr_user_type profile = ''admin'')
      \<longrightarrow> checkAdminAccess getUser selectProfile = ([], None))"
  by (auto simp: checkAdminAccess_def)

theorem checkAdminAccess_cases_witness:
  "checkAdminAccess no_session profile_store = ([Navigate ''/auth''], None) \<and>
   checkAdminAccess (session_of ''1'') profile_store
     = ([ToastError msg_access_denied, Navigate ''/''], None) \<and>
   checkAdminAccess (session_of ''3'') profile_store
     = ([ToastError msg_access_denied, Navigate ''/''], None) \<and>
   checkAdminAccess (session_of ''2'') profile_store = ([], None)"
proof -
  let ?client = "\<lparr>data = Some \<lparr>pr_user_type = ''client''\<rparr>, error = None\<rparr>"
  let ?admin = "\<lparr>data = Some \<lparr>pr_user_type = ''admin''\<rparr>, error = None\<rparr>"
  let ?missing = "\<lparr>data = None :: profile_role option, error = Some (BackendError ''no rows'')\<rparr>"
  have a: "no_session = Fulfilled None"
    by (simp add: no_session_def)
  have b1: "session_of ''1'' = Fulfilled (Some \<lparr>su_id = ''1''\<rparr>) \<and>
            profile_store (su_id \<lparr>su_id = ''1''\<rparr>) = Fulfilled ?client \<and>
            (data ?client = None \<or>
             (\<exists>profile. data ?client = Some profile \<and> pr_user_type profile \<noteq> ''admin''))"
    by (simp add: session_of_def profile_store_def)
  have b3: "session_of ''3'' = Fulfilled (Some \<lparr>su_id = ''3''\<rparr>) \<and>
            profile_store (su_id \<lparr>su_id = ''3''\<rparr>) = Fulfilled ?missing \<and>
            (data ?missing = None \<or>
             (\<exists>profile. data ?missing = Some profile \<and> pr_user_type profile \<noteq> ''admin''))"
    by (simp add: session_of_def profile_store_def)
  have b2: "session_of ''2'' = Fulfilled (Some \<lparr>su_id = ''2''\<rparr>) \<and>
            profile_store (su_id \<lparr>su_id = ''2''\<rparr>) = Fulfilled ?admin \<and>
            (\<exists>profile. data ?admin = Some profile \<and> pr_user_type profile = ''admin'')"
    by (simp add: session_of_def profile_store_def)
  from checkAdminAccess_cases [of no_session profile_store] a
  have r0: "checkAdminAccess no_session profile_store = ([Navigate ''/auth''], None)"
    by blast
  from checkAdminAccess_cases
         [of "session_of ''1''" profile_store "\<lparr>su_id = ''1''\<rparr>" ?client] b1
  have r1: "checkAdminAccess (session_of ''1'') profile_store
              = ([ToastError msg_access_denied, Navigate ''/''], None)"
    by blast
  from checkAdminAccess_cases
         [of "session_of ''3''" profile_store "\<lparr>su_id = ''3''\<rparr>" ?missing] b3
  have r3: "checkAdminAccess (session_of ''3'') profile_store
              = ([ToastError msg_access_denied, Navigate ''/''], None)"
    by blast
  from checkAdminAccess_cases
         [of "session_of ''2''" profile_store "\<lparr>su_id = ''2''\<rparr>" ?admin] b2
  have r2: "checkAdminAccess (session_of ''2'') profile_store = ([], None)"
    by blast
  from r0 r1 r2 r3 show ?thesis by blast
qed

subsection \<open>Blocking an id that is not loaded\<close>




end
